theory Spec2Isabelle
  imports Complex_Main
begin

section \<open>JavaScript values and numeric primitives\<close>

text \<open>
  The dead-reckoning estimator (\<^verbatim>\<open>DRModule.jsx\<close>) and the georeferencing code
  (\<^verbatim>\<open>PathVisualizer.jsx\<close>) compute on JavaScript numbers. Finite numbers are
  modelled by \<^typ>\<open>real\<close>: rounding, overflow and the two infinities are outside the
  model. A field of a sensor event may also be absent or not a number, and the
  handlers test for that, so an event field is a \<open>jsval\<close>.
\<close>

datatype jsval = Undefined | Null | NaN | Num real

text \<open>\<^verbatim>\<open>a ?? b\<close>: the right operand only when the left is \<^verbatim>\<open>null\<close> or \<^verbatim>\<open>undefined\<close>.\<close>

fun nullish :: "jsval \<Rightarrow> jsval \<Rightarrow> jsval" where
  "nullish Undefined b = b"
| "nullish Null b = b"
| "nullish a b = a"

text \<open>
  \<^verbatim>\<open>v || 0\<close> on a numeric field: every falsy value (absent, \<^verbatim>\<open>NaN\<close>, zero) reads as 0.
  A \<open>jsval\<close> holds no infinity; \<open>x_orZero\<close> below is the same operator on fields that
  may be infinite.
\<close>

fun orZero :: "jsval \<Rightarrow> real" where
  "orZero (Num r) = r"
| "orZero v = 0"

text \<open>
  \<^verbatim>\<open>a % b\<close> on numbers is the truncated remainder: the quotient is rounded toward zero
  and the result has the sign of the dividend. The divisor is the literal 360 at
  every use.
\<close>

definition js_trunc :: "real \<Rightarrow> int" where
  "js_trunc r = (if 0 \<le> r then \<lfloor>r\<rfloor> else \<lceil>r\<rceil>)"

definition js_rem :: "real \<Rightarrow> real \<Rightarrow> real" where
  "js_rem a b = a - b * of_int (js_trunc (a / b))"

text \<open>\<^verbatim>\<open>Math.atan2(y, x)\<close>, the angle of the point \<open>(x, y)\<close> in \<open>(-\<pi>, \<pi>]\<close>.\<close>

definition atan2 :: "real \<Rightarrow> real \<Rightarrow> real" where
  "atan2 y x =
     (if 0 < x then arctan (y / x)
      else if x < 0 then (if 0 \<le> y then arctan (y / x) + pi else arctan (y / x) - pi)
      else if 0 < y then pi / 2
      else if y < 0 then - (pi / 2)
      else 0)"

text \<open>\<^verbatim>\<open>Math.hypot(a, b)\<close>.\<close>

definition hypot :: "real \<Rightarrow> real \<Rightarrow> real" where
  "hypot a b = sqrt (a\<^sup>2 + b\<^sup>2)"

section \<open>State of the dead-reckoning module\<close>

text \<open>A point or vector \<^verbatim>\<open>{ x, y }\<close>.\<close>

record vec =
  xc :: real
  yc :: real

text \<open>\<^verbatim>\<open>compassFilterRef\<close>: \<^verbatim>\<open>{ lastValue: null, alpha: 0.2 }\<close>.\<close>

record compass_filter =
  lastValue :: "real option"
  alpha :: real

text \<open>
  The component keeps each quantity in a React state cell and mirrors it in a ref
  that an effect refreshes after every change; the handlers read and write the refs.
  The model has one field for each pair. \<open>initial_state\<close> holds the initial values
  of the \<^verbatim>\<open>useState\<close> and \<^verbatim>\<open>useRef\<close> calls.
\<close>

record dr_state =
  velocity :: vec
  position :: vec
  path :: "vec list"
  heading :: real
  isCalibrating :: bool
  lastTimestamp :: "real option"
  stationaryCount :: nat
  accelBias :: vec
  compassFilter :: compass_filter

definition initial_state :: dr_state where
  "initial_state =
     \<lparr>velocity = \<lparr>xc = 0, yc = 0\<rparr>, position = \<lparr>xc = 0, yc = 0\<rparr>,
      path = [\<lparr>xc = 0, yc = 0\<rparr>], heading = 0,
      isCalibrating = False, lastTimestamp = None, stationaryCount = 0,
      accelBias = \<lparr>xc = 0, yc = 0\<rparr>,
      compassFilter = \<lparr>lastValue = None, alpha = 0.2\<rparr>\<rparr>"

section \<open>Heading update: \<^verbatim>\<open>handleDeviceOrientation\<close>\<close>

record orientation_event =
  ev_alpha :: jsval
  ev_beta :: jsval
  ev_gamma :: jsval
  webkitCompassHeading :: jsval

text \<open>
  Tilt compensation, applied when the device is pitched or rolled by more than 5
  degrees; the result of \<open>atan2\<close> is brought into degrees and normalised with
  \<^verbatim>\<open>(h + 360) % 360\<close>.
\<close>

definition tiltCompensated :: "real \<Rightarrow> real \<Rightarrow> real \<Rightarrow> real" where
  "tiltCompensated a b g =
     (let betaRad = b * (pi / 180);
          gammaRad = g * (pi / 180);
          cosB = cos betaRad; sinB = sin betaRad;
          cosG = cos gammaRad; sinG = sin gammaRad;
          h = atan2 (sinG * cosB * cos (a * pi / 180) + sinB * sin (a * pi / 180))
                    (cosG * cos (a * pi / 180)) * (180 / pi)
      in js_rem (h + 360) 360)"

text \<open>
  The platform branch. A defined \<^verbatim>\<open>webkitCompassHeading\<close> inverts the heading;
  otherwise, when \<^verbatim>\<open>window.screen.orientation\<close> exists (\<open>scr = Some angle\<close>), the
  screen angle is added modulo 360; otherwise the heading is left as it is.
\<close>

definition platformNormalized :: "jsval option \<Rightarrow> jsval \<Rightarrow> real \<Rightarrow> real" where
  "platformNormalized scr wk h =
     (if wk \<noteq> Undefined then 360 - h
      else (case scr of
              Some angle \<Rightarrow> js_rem (h + orZero angle) 360
            | None \<Rightarrow> h))"

text \<open>
  The handler. A sample is accepted when azimuth, pitch and roll are all numbers
  other than \<^verbatim>\<open>NaN\<close>; any other sample leaves the state as it is. The two-second
  timer that clears the calibrating flag is not part of the model.
\<close>

definition handleDeviceOrientation ::
    "jsval option \<Rightarrow> orientation_event \<Rightarrow> dr_state \<Rightarrow> dr_state" where
  "handleDeviceOrientation scr ev st =
     (case (nullish (ev_alpha ev) (webkitCompassHeading ev), ev_beta ev, ev_gamma ev) of
        (Num a, Num b, Num g) \<Rightarrow>
          (let compensated = (if \<bar>b\<bar> > 5 \<or> \<bar>g\<bar> > 5 then tiltCompensated a b g else a);
               filtered =
                 (case lastValue (compassFilter st) of
                    None \<Rightarrow> compensated
                  | Some l \<Rightarrow> alpha (compassFilter st) * compensated
                              + (1 - alpha (compassFilter st)) * l);
               h = platformNormalized scr (webkitCompassHeading ev) filtered
           in st\<lparr>compassFilter := (compassFilter st)\<lparr>lastValue := Some filtered\<rparr>,
                 isCalibrating := (\<bar>h - heading st\<bar> > 20 \<or> isCalibrating st),
                 heading := h\<rparr>)
      | _ \<Rightarrow> st)"

section \<open>Motion update: \<^verbatim>\<open>handleDeviceMotion\<close>\<close>

text \<open>
  \<^verbatim>\<open>event.acceleration\<close> is an object with numeric fields or \<^verbatim>\<open>null\<close>. The handler
  reads the time from \<^verbatim>\<open>event.timeStamp\<close> (milliseconds) and falls back to
  \<^verbatim>\<open>performance.now()\<close> when the event has none; \<open>timeStamp\<close> is the value it ends up
  with.
\<close>

record accel =
  acc_x :: jsval
  acc_y :: jsval

record motion_event =
  acceleration :: "accel option"
  timeStamp :: real

definition stationaryThreshold :: real where
  "stationaryThreshold = 0.12"

definition stationarySamplesRequired :: nat where
  "stationarySamplesRequired = 6"

definition deadzone :: real where
  "deadzone = 0.05"

definition damping :: real where
  "damping = 1.0"

text \<open>The deadzone applied to one bias-corrected component.\<close>

definition deadzoned :: "real \<Rightarrow> real" where
  "deadzoned u = (if \<bar>u\<bar> > deadzone then u else 0)"

text \<open>Rotation of the device-frame acceleration into the world frame.\<close>

definition worldAx :: "real \<Rightarrow> real \<Rightarrow> real \<Rightarrow> real" where
  "worldAx ax ay headingRad = ax * cos headingRad + ay * sin headingRad"

definition worldAy :: "real \<Rightarrow> real \<Rightarrow> real \<Rightarrow> real" where
  "worldAy ax ay headingRad = - ax * sin headingRad + ay * cos headingRad"

text \<open>
  The stationary branch: the bias moves toward the raw reading and the velocity is
  zeroed; the handler returns without integrating.
\<close>

definition stationaryUpdate :: "real \<Rightarrow> real \<Rightarrow> dr_state \<Rightarrow> dr_state" where
  "stationaryUpdate axRaw ayRaw st =
     st\<lparr>accelBias := \<lparr>xc = xc (accelBias st) * 0.8 + axRaw * 0.2,
                       yc = yc (accelBias st) * 0.8 + ayRaw * 0.2\<rparr>,
        velocity := \<lparr>xc = 0, yc = 0\<rparr>\<rparr>"

text \<open>
  The integrating branch: bias correction, deadzone, rotation by the current
  heading (\<^verbatim>\<open>headingRef.current || 0\<close>, which on a number is the number itself),
  damped velocity integration, position integration with the new velocity, and the
  new position appended to the path.
\<close>

definition integrate :: "real \<Rightarrow> real \<Rightarrow> real \<Rightarrow> dr_state \<Rightarrow> dr_state" where
  "integrate axRaw ayRaw deltaTime st =
     (let ax = deadzoned (axRaw - xc (accelBias st));
          ay = deadzoned (ayRaw - yc (accelBias st));
          headingRad = heading st * (pi / 180);
          newVelX = (xc (velocity st) + worldAx ax ay headingRad * deltaTime)
                      * exp (- damping * deltaTime);
          newVelY = (yc (velocity st) + worldAy ax ay headingRad * deltaTime)
                      * exp (- damping * deltaTime);
          newPosX = xc (position st) + newVelX * deltaTime;
          newPosY = yc (position st) + newVelY * deltaTime
      in st\<lparr>velocity := \<lparr>xc = newVelX, yc = newVelY\<rparr>,
            position := \<lparr>xc = newPosX, yc = newPosY\<rparr>,
            path := path st @ [\<lparr>xc = newPosX, yc = newPosY\<rparr>]\<rparr>)"

text \<open>
  The handler, from the read of \<^verbatim>\<open>event.acceleration\<close> on (the display-only copies
  of the raw accelerometer and gyroscope readings are left out).
\<close>

definition handleDeviceMotion :: "motion_event \<Rightarrow> dr_state \<Rightarrow> dr_state" where
  "handleDeviceMotion ev st =
     (case acceleration ev of
        None \<Rightarrow> st
      | Some acc \<Rightarrow>
          (case lastTimestamp st of
             None \<Rightarrow> st\<lparr>lastTimestamp := Some (timeStamp ev)\<rparr>
           | Some lastT \<Rightarrow>
               (let deltaTime = (timeStamp ev - lastT) / 1000
                in if deltaTime \<le> 0 \<or> deltaTime < 0.001 then st
                   else
                     (let axRaw = orZero (acc_x acc);
                          ayRaw = orZero (acc_y acc);
                          accMag2D = hypot axRaw ayRaw;
                          st' = st\<lparr>lastTimestamp := Some (timeStamp ev),
                                   stationaryCount :=
                                     (if accMag2D < stationaryThreshold
                                      then stationaryCount st + 1 else 0)\<rparr>
                      in if stationaryCount st' \<ge> stationarySamplesRequired
                         then stationaryUpdate axRaw ayRaw st'
                         else integrate axRaw ayRaw deltaTime st'))))"

text \<open>\<^verbatim>\<open>clearPath\<close>, the reset operation behind the "Reset Path" button.\<close>

definition clearPath :: "dr_state \<Rightarrow> dr_state" where
  "clearPath st =
     st\<lparr>velocity := \<lparr>xc = 0, yc = 0\<rparr>,
        position := \<lparr>xc = 0, yc = 0\<rparr>,
        path := [\<lparr>xc = 0, yc = 0\<rparr>],
        lastTimestamp := None\<rparr>"

section \<open>Georeferencing: \<^verbatim>\<open>PathVisualizer\<close>\<close>

text \<open>The GPS fix the module passes down: \<^verbatim>\<open>{ latitude, longitude, accuracy, timestamp }\<close>.\<close>

record gps_location =
  latitude :: real
  longitude :: real
  accuracy :: real
  timestamp :: real

text \<open>
  The effect that converts the dead-reckoning path into \<^verbatim>\<open>[lat, lon]\<close> pairs around
  the current GPS fix.
\<close>

definition projectPath :: "gps_location option \<Rightarrow> vec list \<Rightarrow> (real \<times> real) list" where
  "projectPath gpsLocation pth =
     (case gpsLocation of
        None \<Rightarrow> []
      | Some g \<Rightarrow>
          if length pth < 2 then []
          else
            (let originLat = latitude g;
                 originLon = longitude g;
                 metersPerLatDegree = 111320;
                 metersPerLonDegree = 111320 * cos (originLat * pi / 180)
             in map (\<lambda>p. (originLat + yc p / metersPerLatDegree,
                           originLon + xc p / metersPerLonDegree)) pth))"

text \<open>The distance the duplicate test computes between a stored point and a new one.\<close>

definition distance :: "real \<times> real \<Rightarrow> real \<times> real \<Rightarrow> real" where
  "distance point newPoint =
     sqrt (((fst point - fst newPoint) * 111320)\<^sup>2
           + ((snd point - snd newPoint) * 111320 * cos (fst point * pi / 180))\<^sup>2)"

text \<open>The effect that extends the GPS trace when a fix arrives.\<close>

definition ingestGroundTruth ::
    "gps_location option \<Rightarrow> (real \<times> real) list \<Rightarrow> (real \<times> real) list" where
  "ingestGroundTruth gpsLocation prev =
     (case gpsLocation of
        None \<Rightarrow> prev
      | Some g \<Rightarrow>
          (let newPoint = (latitude g, longitude g);
               isDuplicate = list_ex (\<lambda>point. distance point newPoint < 0.5) prev
           in if isDuplicate then prev else prev @ [newPoint]))"

section \<open>Motion update on numbers that may be infinite\<close>

text \<open>
  The model above computes on real numbers, so a field of a motion event cannot be
  an infinity there. In the code \<^verbatim>\<open>acc.x || 0\<close> lets an infinite component through
  (an infinity is truthy), and the handler goes on computing with it. This section
  repeats the motion handler on numbers extended by the two infinities and
  \<^verbatim>\<open>NaN\<close>, with the IEEE 754 rules for them and exact arithmetic on finite numbers
  (no rounding, no overflow). The timestamps and the heading are finite, as before.
  On finite data the two handlers agree (lemma \<open>x_refines\<close>).
\<close>

datatype xnum = Fin real | PosInf | NegInf | NotANumber


text \<open>Unary minus.\<close>

fun xneg :: "xnum \<Rightarrow> xnum" where
  "xneg (Fin a) = Fin (- a)"
| "xneg PosInf = NegInf"
| "xneg NegInf = PosInf"
| "xneg NotANumber = NotANumber"

text \<open>
  Addition: \<^verbatim>\<open>NaN\<close> is absorbing, opposite infinities give \<^verbatim>\<open>NaN\<close>, and an infinity
  absorbs every finite number.
\<close>

fun xadd :: "xnum \<Rightarrow> xnum \<Rightarrow> xnum" where
  "xadd NotANumber b = NotANumber"
| "xadd a NotANumber = NotANumber"
| "xadd (Fin a) (Fin b) = Fin (a + b)"
| "xadd PosInf NegInf = NotANumber"
| "xadd NegInf PosInf = NotANumber"
| "xadd PosInf b = PosInf"
| "xadd NegInf b = NegInf"
| "xadd (Fin a) PosInf = PosInf"
| "xadd (Fin a) NegInf = NegInf"

text \<open>Subtraction is addition of the negated operand.\<close>

definition xsub :: "xnum \<Rightarrow> xnum \<Rightarrow> xnum" where
  "xsub a b = xadd a (xneg b)"

text \<open>
  Multiplication: \<^verbatim>\<open>NaN\<close> is absorbing, an infinity times zero is \<^verbatim>\<open>NaN\<close>, and
  otherwise an infinity keeps or flips its sign with the sign of the other factor.
\<close>

fun xmul :: "xnum \<Rightarrow> xnum \<Rightarrow> xnum" where
  "xmul NotANumber b = NotANumber"
| "xmul a NotANumber = NotANumber"
| "xmul (Fin a) (Fin b) = Fin (a * b)"
| "xmul (Fin a) b = (if a = 0 then NotANumber else if 0 < a then b else xneg b)"
| "xmul a (Fin b) = (if b = 0 then NotANumber else if 0 < b then a else xneg a)"
| "xmul PosInf PosInf = PosInf"
| "xmul NegInf NegInf = PosInf"
| "xmul PosInf NegInf = NegInf"
| "xmul NegInf PosInf = NegInf"

text \<open>\<^verbatim>\<open>Math.abs\<close>.\<close>

fun xabs :: "xnum \<Rightarrow> xnum" where
  "xabs (Fin a) = Fin \<bar>a\<bar>"
| "xabs NotANumber = NotANumber"
| "xabs a = PosInf"

text \<open>\<^verbatim>\<open>a < b\<close>: false as soon as one operand is \<^verbatim>\<open>NaN\<close>.\<close>

fun xless :: "xnum \<Rightarrow> xnum \<Rightarrow> bool" where
  "xless NotANumber b = False"
| "xless a NotANumber = False"
| "xless (Fin a) (Fin b) = (a < b)"
| "xless PosInf b = False"
| "xless a NegInf = False"
| "xless a b = True"

text \<open>
  \<^verbatim>\<open>Math.hypot\<close>: \<^verbatim>\<open>Infinity\<close> when an argument is infinite, even beside a \<^verbatim>\<open>NaN\<close>;
  otherwise \<^verbatim>\<open>NaN\<close> when an argument is \<^verbatim>\<open>NaN\<close>.
\<close>

fun xhypot :: "xnum \<Rightarrow> xnum \<Rightarrow> xnum" where
  "xhypot (Fin a) (Fin b) = Fin (hypot a b)"
| "xhypot PosInf b = PosInf"
| "xhypot NegInf b = PosInf"
| "xhypot a PosInf = PosInf"
| "xhypot a NegInf = PosInf"
| "xhypot a b = NotANumber"

text \<open>A field of a motion event: absent, or a number that may be infinite or \<^verbatim>\<open>NaN\<close>.\<close>

datatype xval = XUndefined | XNull | XNum xnum

text \<open>
  \<^verbatim>\<open>v || 0\<close>: the falsy values (absent, \<^verbatim>\<open>NaN\<close>, zero) read as 0; an infinity is truthy
  and is passed on.
\<close>

fun x_orZero :: "xval \<Rightarrow> xnum" where
  "x_orZero (XNum (Fin r)) = Fin r"
| "x_orZero (XNum PosInf) = PosInf"
| "x_orZero (XNum NegInf) = NegInf"
| "x_orZero (XNum NotANumber) = Fin 0"
| "x_orZero XUndefined = Fin 0"
| "x_orZero XNull = Fin 0"

record xvec =
  x_xc :: xnum
  x_yc :: xnum

record x_accel =
  x_acc_x :: xval
  x_acc_y :: xval

record x_motion_event =
  x_acceleration :: "x_accel option"
  x_timeStamp :: real

text \<open>The part of the module's state the motion handler reads or writes.\<close>

record x_state =
  x_velocity :: xvec
  x_position :: xvec
  x_path :: "xvec list"
  x_heading :: real
  x_lastTimestamp :: "real option"
  x_stationaryCount :: nat
  x_accelBias :: xvec

definition x_deadzoned :: "xnum \<Rightarrow> xnum" where
  "x_deadzoned u = (if xless (Fin deadzone) (xabs u) then u else Fin 0)"

definition x_worldAx :: "xnum \<Rightarrow> xnum \<Rightarrow> real \<Rightarrow> xnum" where
  "x_worldAx ax ay headingRad =
     xadd (xmul ax (Fin (cos headingRad))) (xmul ay (Fin (sin headingRad)))"

definition x_worldAy :: "xnum \<Rightarrow> xnum \<Rightarrow> real \<Rightarrow> xnum" where
  "x_worldAy ax ay headingRad =
     xadd (xmul (xneg ax) (Fin (sin headingRad))) (xmul ay (Fin (cos headingRad)))"

definition x_stationaryUpdate :: "xnum \<Rightarrow> xnum \<Rightarrow> x_state \<Rightarrow> x_state" where
  "x_stationaryUpdate axRaw ayRaw st =
     st\<lparr>x_accelBias :=
          \<lparr>x_xc = xadd (xmul (x_xc (x_accelBias st)) (Fin 0.8)) (xmul axRaw (Fin 0.2)),
           x_yc = xadd (xmul (x_yc (x_accelBias st)) (Fin 0.8)) (xmul ayRaw (Fin 0.2))\<rparr>,
        x_velocity := \<lparr>x_xc = Fin 0, x_yc = Fin 0\<rparr>\<rparr>"

definition x_integrate :: "xnum \<Rightarrow> xnum \<Rightarrow> real \<Rightarrow> x_state \<Rightarrow> x_state" where
  "x_integrate axRaw ayRaw deltaTime st =
     (let ax = x_deadzoned (xsub axRaw (x_xc (x_accelBias st)));
          ay = x_deadzoned (xsub ayRaw (x_yc (x_accelBias st)));
          headingRad = x_heading st * (pi / 180);
          newVelX = xmul (xadd (x_xc (x_velocity st))
                               (xmul (x_worldAx ax ay headingRad) (Fin deltaTime)))
                         (Fin (exp (- damping * deltaTime)));
          newVelY = xmul (xadd (x_yc (x_velocity st))
                               (xmul (x_worldAy ax ay headingRad) (Fin deltaTime)))
                         (Fin (exp (- damping * deltaTime)));
          newPosX = xadd (x_xc (x_position st)) (xmul newVelX (Fin deltaTime));
          newPosY = xadd (x_yc (x_position st)) (xmul newVelY (Fin deltaTime))
      in st\<lparr>x_velocity := \<lparr>x_xc = newVelX, x_yc = newVelY\<rparr>,
            x_position := \<lparr>x_xc = newPosX, x_yc = newPosY\<rparr>,
            x_path := x_path st @ [\<lparr>x_xc = newPosX, x_yc = newPosY\<rparr>]\<rparr>)"

definition x_handleDeviceMotion :: "x_motion_event \<Rightarrow> x_state \<Rightarrow> x_state" where
  "x_handleDeviceMotion ev st =
     (case x_acceleration ev of
        None \<Rightarrow> st
      | Some acc \<Rightarrow>
          (case x_lastTimestamp st of
             None \<Rightarrow> st\<lparr>x_lastTimestamp := Some (x_timeStamp ev)\<rparr>
           | Some lastT \<Rightarrow>
               (let deltaTime = (x_timeStamp ev - lastT) / 1000
                in if deltaTime \<le> 0 \<or> deltaTime < 0.001 then st
                   else
                     (let axRaw = x_orZero (x_acc_x acc);
                          ayRaw = x_orZero (x_acc_y acc);
                          accMag2D = xhypot axRaw ayRaw;
                          st' = st\<lparr>x_lastTimestamp := Some (x_timeStamp ev),
                                   x_stationaryCount :=
                                     (if xless accMag2D (Fin stationaryThreshold)
                                      then x_stationaryCount st + 1 else 0)\<rparr>
                      in if x_stationaryCount st' \<ge> stationarySamplesRequired
                         then x_stationaryUpdate axRaw ayRaw st'
                         else x_integrate axRaw ayRaw deltaTime st'))))"

text \<open>The finite events and states of the real-number model, read in this one.\<close>

fun x_of_jsval :: "jsval \<Rightarrow> xval" where
  "x_of_jsval Undefined = XUndefined"
| "x_of_jsval Null = XNull"
| "x_of_jsval NaN = XNum NotANumber"
| "x_of_jsval (Num r) = XNum (Fin r)"

definition x_of_vec :: "vec \<Rightarrow> xvec" where
  "x_of_vec v = \<lparr>x_xc = Fin (xc v), x_yc = Fin (yc v)\<rparr>"

definition x_of_event :: "motion_event \<Rightarrow> x_motion_event" where
  "x_of_event ev =
     \<lparr>x_acceleration =
        map_option (\<lambda>a. \<lparr>x_acc_x = x_of_jsval (acc_x a), x_acc_y = x_of_jsval (acc_y a)\<rparr>)
          (acceleration ev),
      x_timeStamp = timeStamp ev\<rparr>"

definition x_of_state :: "dr_state \<Rightarrow> x_state" where
  "x_of_state st =
     \<lparr>x_velocity = x_of_vec (velocity st), x_position = x_of_vec (position st),
      x_path = map x_of_vec (path st), x_heading = heading st,
      x_lastTimestamp = lastTimestamp st, x_stationaryCount = stationaryCount st,
      x_accelBias = x_of_vec (accelBias st)\<rparr>"

section \<open>Notions used in the statements\<close>

text \<open>The compass range: a heading in degrees from 0 up to, but excluding, 360.\<close>

definition in_range :: "real \<Rightarrow> bool" where
  "in_range h = (0 \<le> h \<and> h < 360)"

text \<open>
  A motion sample is accepted in a state when it carries an acceleration object, a
  timestamp baseline exists, and the elapsed time passes the handler's test.
\<close>

definition accepted :: "motion_event \<Rightarrow> dr_state \<Rightarrow> bool" where
  "accepted ev st =
     (case (acceleration ev, lastTimestamp st) of
        (Some acc, Some lastT) \<Rightarrow>
          \<not> ((timeStamp ev - lastT) / 1000 \<le> 0 \<or> (timeStamp ev - lastT) / 1000 < 0.001)
      | _ \<Rightarrow> False)"

text \<open>A sample is quiet when its raw 2D acceleration magnitude is under the threshold.\<close>

definition quiet :: "motion_event \<Rightarrow> bool" where
  "quiet ev =
     (case acceleration ev of
        Some acc \<Rightarrow> hypot (orZero (acc_x acc)) (orZero (acc_y acc)) < stationaryThreshold
      | None \<Rightarrow> False)"

text \<open>The handler applied to a sequence of motion samples, in arrival order.\<close>

fun feed :: "motion_event list \<Rightarrow> dr_state \<Rightarrow> dr_state" where
  "feed [] st = st"
| "feed (e # es) st = feed es (handleDeviceMotion e st)"

text \<open>A run of consecutive samples, each accepted in the state it arrives in and quiet.\<close>

fun quiet_run :: "motion_event list \<Rightarrow> dr_state \<Rightarrow> bool" where
  "quiet_run [] st = True"
| "quiet_run (e # es) st =
     (accepted e st \<and> quiet e \<and> quiet_run es (handleDeviceMotion e st))"



subsection \<open>Sample inputs\<close>

definition level_event :: "real \<Rightarrow> jsval \<Rightarrow> orientation_event" where
  "level_event a wk =
     \<lparr>ev_alpha = Num a, ev_beta = Num 0, ev_gamma = Num 0, webkitCompassHeading = wk\<rparr>"

definition sample :: "real \<Rightarrow> jsval \<Rightarrow> jsval \<Rightarrow> motion_event" where
  "sample t ax ay = \<lparr>acceleration = Some \<lparr>acc_x = ax, acc_y = ay\<rparr>, timeStamp = t\<rparr>"

definition started :: "real \<Rightarrow> dr_state" where
  "started t = initial_state\<lparr>lastTimestamp := Some t\<rparr>"

definition quiet_samples :: "motion_event list" where
  "quiet_samples =
     [sample 16 (Num 0.1) (Num 0), sample 32 (Num 0.1) (Num 0), sample 48 (Num 0.1) (Num 0),
      sample 64 (Num 0.1) (Num 0), sample 80 (Num 0.1) (Num 0)]"

definition moving :: dr_state where
  "moving = initial_state\<lparr>velocity := \<lparr>xc = 1, yc = 2\<rparr>, lastTimestamp := Some 0\<rparr>"

definition equator :: gps_location where
  "equator = \<lparr>latitude = 0, longitude = 0, accuracy = 5, timestamp = 0\<rparr>"



definition fix_at :: "real \<Rightarrow> real \<Rightarrow> gps_location" where
  "fix_at lat lon = \<lparr>latitude = lat, longitude = lon, accuracy = 5, timestamp = 0\<rparr>"

section \<open>Numeric primitives\<close>

lemma js_rem_360:
  assumes "0 \<le> a"
  shows "0 \<le> js_rem a 360 \<and> js_rem a 360 < 360"
proof -
  let ?q = "\<lfloor>a / 360\<rfloor>"
  from assms have t: "js_trunc (a / 360) = ?q"
    by (simp add: js_trunc_def)
  have "of_int ?q * 360 \<le> a" and "a < (of_int ?q + 1) * 360"
    using floor_divide_lower [of 360 a] floor_divide_upper [of 360 a] by simp_all
  then show ?thesis
    by (simp add: js_rem_def t algebra_simps)
qed

lemma atan2_range: "- pi < atan2 y x \<and> atan2 y x \<le> pi"
proof -
  have b: "- (pi / 2) < arctan (y / x)" "arctan (y / x) < pi / 2"
    using arctan_lbound [of "y / x"] arctan_ubound [of "y / x"] by blast+
  have p: "0 < pi" by simp
  consider "0 < x" | "x < 0" "0 \<le> y" | "x < 0" "y < 0" | "x = 0"
    by linarith
  then show ?thesis
  proof cases
    case 1
    then have "atan2 y x = arctan (y / x)" by (simp add: atan2_def)
    with b p show ?thesis by linarith
  next
    case 2
    then have "y / x \<le> 0" by (simp add: divide_nonneg_neg)
    then have "arctan (y / x) \<le> 0" by (simp add: arctan_le_zero_iff)
    moreover from 2 have "atan2 y x = arctan (y / x) + pi" by (simp add: atan2_def)
    ultimately show ?thesis using b p by linarith
  next
    case 3
    then have "0 < y / x" by (simp add: divide_neg_neg)
    then have "0 < arctan (y / x)" by (simp add: zero_less_arctan_iff)
    moreover from 3 have "atan2 y x = arctan (y / x) - pi" by (simp add: atan2_def)
    ultimately show ?thesis using b p by linarith
  next
    case 4
    then have "atan2 y x = pi / 2 \<or> atan2 y x = - (pi / 2) \<or> atan2 y x = 0"
      by (simp add: atan2_def)
    with p show ?thesis by linarith
  qed
qed

lemma hypot_scale: "0 \<le> c \<Longrightarrow> hypot (a * c) (b * c) = hypot a b * c"
proof -
  assume c: "0 \<le> c"
  have "(a * c)\<^sup>2 + (b * c)\<^sup>2 = (a\<^sup>2 + b\<^sup>2) * c\<^sup>2"
    by (simp add: power2_eq_square algebra_simps)
  then show ?thesis using c by (simp add: hypot_def real_sqrt_mult)
qed

lemma hypot_pos: "v \<noteq> \<lparr>xc = 0, yc = 0\<rparr> \<Longrightarrow> 0 < hypot (xc v) (yc v)"
proof -
  assume "v \<noteq> \<lparr>xc = 0, yc = 0\<rparr>"
  then have "xc v \<noteq> 0 \<or> yc v \<noteq> 0" by (cases v) auto
  then have "0 < (xc v)\<^sup>2 + (yc v)\<^sup>2"
    by (auto simp add: sum_power2_gt_zero_iff)
  then show ?thesis by (simp add: hypot_def)
qed

section \<open>Heading update\<close>

lemma tiltCompensated_range:
  "0 \<le> tiltCompensated a b g \<and> tiltCompensated a b g < 360"
proof -
  define t where "t = atan2 (sin (g * (pi / 180)) * cos (b * (pi / 180)) * cos (a * pi / 180)
                        + sin (b * (pi / 180)) * sin (a * pi / 180))
                       (cos (g * (pi / 180)) * cos (a * pi / 180))"
  have tc: "tiltCompensated a b g = js_rem (t * (180 / pi) + 360) 360"
    by (simp add: tiltCompensated_def Let_def t_def)
  have "- pi < t" using atan2_range [of _ _] by (simp add: t_def)
  then have "- pi * (180 / pi) < t * (180 / pi)"
    by (intro mult_strict_right_mono) simp_all
  then have "0 \<le> t * (180 / pi) + 360" by simp
  then show ?thesis unfolding tc by (rule js_rem_360)
qed

lemma filter_range:
  fixes c l k :: real
  assumes "0 \<le> k" "k \<le> 1" "0 \<le> c" "c < 360" "0 \<le> l" "l < 360"
  shows "0 \<le> k * c + (1 - k) * l \<and> k * c + (1 - k) * l < 360"
proof
  from assms show "0 \<le> k * c + (1 - k) * l" by simp
  have "k * c \<le> k * 360" using assms by (intro mult_left_mono) simp_all
  moreover have "(1 - k) * l \<le> (1 - k) * 360" using assms by (intro mult_left_mono) simp_all
  moreover have "k * c < k * 360 \<or> (1 - k) * l < (1 - k) * 360"
  proof (cases "k = 0")
    case True with assms show ?thesis by simp
  next
    case False with assms have "0 < k" by simp
    with assms have "k * c < k * 360" by simp
    then show ?thesis ..
  qed
  ultimately show "k * c + (1 - k) * l < 360" by (auto simp add: algebra_simps)
qed

text \<open>
  C1, as stated: after every accepted sample the stored heading lies in \<open>[0, 360)\<close>.
  It fails at two accepted samples arriving in the initial state with the screen at
  angle 0. With azimuth 0 and a defined \<^verbatim>\<open>webkitCompassHeading\<close> the inversion stores
  \<open>360 - 0 = 360\<close>. With azimuth \<open>-10\<close> and no \<^verbatim>\<open>webkitCompassHeading\<close> the truncated
  remainder keeps the sign and stores \<open>-10\<close>.
\<close>

theorem heading_leaves_range:
  "heading (handleDeviceOrientation (Some (Num 0)) (level_event 0 (Num 0)) initial_state) = 360 \<and>
   \<not> in_range (heading
       (handleDeviceOrientation (Some (Num 0)) (level_event 0 (Num 0)) initial_state)) \<and>
   heading (handleDeviceOrientation (Some (Num 0)) (level_event (- 10) Undefined) initial_state)
     = - 10 \<and>
   \<not> in_range (heading
       (handleDeviceOrientation (Some (Num 0)) (level_event (- 10) Undefined) initial_state))"
proof -
  have c: "\<lceil>- (1 / 36) :: real\<rceil> = 0"
    by (rule ceiling_unique) simp_all
  show ?thesis
    by (simp add: handleDeviceOrientation_def level_event_def initial_state_def
        platformNormalized_def in_range_def js_rem_def js_trunc_def c)
qed

text \<open>
  C1, amended: take an accepted sample whose azimuth lies in \<open>[0, 360)\<close> or to which
  the tilt compensation is applied, with the filter memory empty or in \<open>[0, 360)\<close>
  and the filter coefficient in \<open>[0, 1]\<close>. Let \<open>c\<close> be the compensated heading and \<open>f\<close>
  the filtered heading, which the update stores in the filter memory. On the path
  that adds the screen angle (no \<^verbatim>\<open>webkitCompassHeading\<close>), if the screen angle is
  not negative or the screen API is missing, the stored heading lies in
  \<open>[0, 360)\<close>. On the inverting path (a defined \<^verbatim>\<open>webkitCompassHeading\<close>), the
  stored heading lies in \<open>[0, 360)\<close> whenever \<open>f\<close> is not 0. On both paths \<open>f\<close> lies in
  \<open>[0, 360)\<close> and the coefficient is unchanged, so the property carries over to the
  next sample.
\<close>

theorem heading_in_range:
  assumes a: "nullish (ev_alpha ev) (webkitCompassHeading ev) = Num a"
    and b: "ev_beta ev = Num b" and g: "ev_gamma ev = Num g"
    and az: "\<bar>b\<bar> > 5 \<or> \<bar>g\<bar> > 5 \<or> in_range a"
    and mem: "case lastValue (compassFilter st) of None \<Rightarrow> True | Some l \<Rightarrow> in_range l"
    and k: "0 \<le> alpha (compassFilter st)" "alpha (compassFilter st) \<le> 1"
    and c: "c = (if \<bar>b\<bar> > 5 \<or> \<bar>g\<bar> > 5 then tiltCompensated a b g else a)"
    and f: "f = (case lastValue (compassFilter st) of
                   None \<Rightarrow> c
                 | Some l \<Rightarrow> alpha (compassFilter st) * c
                             + (1 - alpha (compassFilter st)) * l)"
    and scr: "webkitCompassHeading ev = Undefined \<longrightarrow>
                (case scr of None \<Rightarrow> True | Some angle \<Rightarrow> 0 \<le> orZero angle)"
    and inv: "webkitCompassHeading ev \<noteq> Undefined \<longrightarrow> f \<noteq> 0"
  shows "in_range (heading (handleDeviceOrientation scr ev st)) \<and>
         lastValue (compassFilter (handleDeviceOrientation scr ev st)) = Some f \<and>
         in_range f \<and>
         alpha (compassFilter (handleDeviceOrientation scr ev st)) = alpha (compassFilter st)"
proof -
  define wk where "wk = webkitCompassHeading ev"
  have h: "handleDeviceOrientation scr ev st =
        st\<lparr>compassFilter := (compassFilter st)\<lparr>lastValue := Some f\<rparr>,
           isCalibrating :=
             (\<bar>platformNormalized scr wk f - heading st\<bar> > 20 \<or> isCalibrating st),
           heading := platformNormalized scr wk f\<rparr>"
    unfolding f c wk_def using a b g by (simp add: handleDeviceOrientation_def Let_def)
  have cr: "in_range c"
    using az tiltCompensated_range [of a b g] by (auto simp add: c in_range_def)
  have fr: "in_range f"
    using mem cr k filter_range [of "alpha (compassFilter st)" c]
    by (auto simp add: f in_range_def split: option.splits)
  have pr: "in_range (platformNormalized scr wk f)"
  proof (cases "wk = Undefined")
    case True
    show ?thesis
    proof (cases scr)
      case None
      with fr True show ?thesis by (simp add: platformNormalized_def)
    next
      case (Some angle)
      with scr fr True have "0 \<le> f + orZero angle" by (simp add: in_range_def wk_def)
      from js_rem_360 [OF this] Some True show ?thesis
        by (simp add: platformNormalized_def in_range_def)
    qed
  next
    case False
    with inv have "f \<noteq> 0" by (simp add: wk_def)
    with fr False show ?thesis by (simp add: platformNormalized_def in_range_def)
  qed
  show ?thesis unfolding h using pr fr by simp
qed

theorem heading_in_range_witness:
  "in_range 350 \<and> in_range 300 \<and> 0.2 * 350 + (1 - 0.2) * 300 = (310 :: real) \<and>
   in_range (heading (handleDeviceOrientation (Some (Num 90)) (level_event 350 Undefined)
     (initial_state\<lparr>compassFilter := \<lparr>lastValue = Some 300, alpha = 0.2\<rparr>\<rparr>))) \<and>
   lastValue (compassFilter (handleDeviceOrientation (Some (Num 90)) (level_event 350 Undefined)
     (initial_state\<lparr>compassFilter := \<lparr>lastValue = Some 300, alpha = 0.2\<rparr>\<rparr>))) = Some 310 \<and>
   in_range (heading (handleDeviceOrientation None (level_event 350 (Num 10))
     (initial_state\<lparr>compassFilter := \<lparr>lastValue = Some 300, alpha = 0.2\<rparr>\<rparr>))) \<and>
   heading (handleDeviceOrientation None (level_event 350 (Num 10))
     (initial_state\<lparr>compassFilter := \<lparr>lastValue = Some 300, alpha = 0.2\<rparr>\<rparr>)) = 50"
proof -
  let ?st = "initial_state\<lparr>compassFilter := \<lparr>lastValue = Some 300, alpha = 0.2\<rparr>\<rparr>"
  have r: "in_range 350" "in_range 300"
    by (simp_all add: in_range_def)
  have v: "0.2 * 350 + (1 - 0.2) * 300 = (310 :: real)"
    by simp
  have h2: "heading (handleDeviceOrientation None (level_event 350 (Num 10)) ?st) = 50"
    by (simp add: handleDeviceOrientation_def level_event_def Let_def platformNormalized_def)
  have 1: "in_range (heading (handleDeviceOrientation (Some (Num 90))
              (level_event 350 Undefined) ?st)) \<and>
           lastValue (compassFilter (handleDeviceOrientation (Some (Num 90))
              (level_event 350 Undefined) ?st)) = Some 310"
    using heading_in_range [of "level_event 350 Undefined" 350 0 0 ?st 350 310 "Some (Num 90)"] r
    by (simp add: level_event_def)
  have 2: "in_range (heading (handleDeviceOrientation None (level_event 350 (Num 10)) ?st))"
    using heading_in_range [of "level_event 350 (Num 10)" 350 0 0 ?st 350 310 None] r
    by (simp add: level_event_def)
  from r v h2 1 2 show ?thesis by blast
qed

section \<open>Motion update\<close>

subsection \<open>The branches of the handler\<close>

lemma motion_stationary:
  assumes "acceleration ev = Some acc" and "lastTimestamp st = Some t0"
    and "0.001 \<le> (timeStamp ev - t0) / 1000"
    and "hypot (orZero (acc_x acc)) (orZero (acc_y acc)) < 0.12"
    and "5 \<le> stationaryCount st"
  shows "handleDeviceMotion ev st =
         stationaryUpdate (orZero (acc_x acc)) (orZero (acc_y acc))
           (st\<lparr>lastTimestamp := Some (timeStamp ev), stationaryCount := stationaryCount st + 1\<rparr>)"
  using assms
  by (simp add: handleDeviceMotion_def Let_def stationaryThreshold_def
        stationarySamplesRequired_def)

lemma motion_integrate:
  assumes "acceleration ev = Some acc" and "lastTimestamp st = Some t0"
    and "0.001 \<le> (timeStamp ev - t0) / 1000"
    and "\<not> (hypot (orZero (acc_x acc)) (orZero (acc_y acc)) < 0.12 \<and> 5 \<le> stationaryCount st)"
  shows "handleDeviceMotion ev st =
         integrate (orZero (acc_x acc)) (orZero (acc_y acc)) ((timeStamp ev - t0) / 1000)
           (st\<lparr>lastTimestamp := Some (timeStamp ev),
               stationaryCount :=
                 (if hypot (orZero (acc_x acc)) (orZero (acc_y acc)) < 0.12
                  then stationaryCount st + 1 else 0)\<rparr>)"
  using assms
  by (auto simp add: handleDeviceMotion_def Let_def stationaryThreshold_def
        stationarySamplesRequired_def)

lemma integrate_velocity:
  "velocity (integrate axRaw ayRaw dt st) =
     \<lparr>xc = (xc (velocity st)
             + worldAx (deadzoned (axRaw - xc (accelBias st)))
                 (deadzoned (ayRaw - yc (accelBias st))) (heading st * (pi / 180)) * dt)
            * exp (- dt),
      yc = (yc (velocity st)
             + worldAy (deadzoned (axRaw - xc (accelBias st)))
                 (deadzoned (ayRaw - yc (accelBias st))) (heading st * (pi / 180)) * dt)
            * exp (- dt)\<rparr>"
  by (simp add: integrate_def Let_def damping_def)

subsection \<open>Missing, malformed and infinite acceleration components\<close>

text \<open>The extended handler on finite data is the real-number handler.\<close>

lemma x_orZero_of_jsval: "x_orZero (x_of_jsval v) = Fin (orZero v)"
  by (cases v) simp_all

lemma x_deadzoned_Fin: "x_deadzoned (Fin u) = Fin (deadzoned u)"
  by (simp add: x_deadzoned_def deadzoned_def)

lemma x_refines:
  "x_handleDeviceMotion (x_of_event ev) (x_of_state st) = x_of_state (handleDeviceMotion ev st)"
proof (cases "acceleration ev")
  case None
  then show ?thesis
    by (simp add: x_handleDeviceMotion_def handleDeviceMotion_def x_of_event_def)
next
  case (Some acc)
  show ?thesis
  proof (cases "lastTimestamp st")
    case None
    with Some show ?thesis
      by (simp add: x_handleDeviceMotion_def handleDeviceMotion_def x_of_event_def x_of_state_def)
  next
    case (Some t0)
    with \<open>acceleration ev = Some acc\<close> show ?thesis
      by (simp add: x_handleDeviceMotion_def handleDeviceMotion_def x_of_event_def x_of_state_def
          Let_def x_orZero_of_jsval x_stationaryUpdate_def stationaryUpdate_def
          x_integrate_def integrate_def x_of_vec_def xsub_def x_deadzoned_Fin
          x_worldAx_def x_worldAy_def worldAx_def worldAy_def)
  qed
qed



















subsection \<open>Rejected timestamps\<close>

text \<open>
  C3, as stated: a sample whose elapsed time is not positive or below one
  millisecond still moves the timestamp baseline to its own timestamp. It fails for
  the sample at 1000.5 ms arriving with the baseline at 1000 ms: the elapsed time is
  half a millisecond and the baseline stays at 1000.
\<close>

theorem rejected_sample_keeps_baseline:
  "(timeStamp (sample 1000.5 (Num 0) (Num 0)) - 1000) / 1000 < (0.001 :: real) \<and>
   lastTimestamp (started 1000) = Some 1000 \<and>
   lastTimestamp (handleDeviceMotion (sample 1000.5 (Num 0) (Num 0)) (started 1000))
     = Some 1000 \<and>
   lastTimestamp (handleDeviceMotion (sample 1000.5 (Num 0) (Num 0)) (started 1000))
     \<noteq> Some (timeStamp (sample 1000.5 (Num 0) (Num 0)))"
  by (simp add: handleDeviceMotion_def sample_def started_def initial_state_def)

text \<open>
  C3, amended: for every motion sample whose elapsed time since the last accepted
  sample is not strictly positive or is below 1 millisecond, the handler returns
  before any assignment: velocity, position and path are unchanged, and the
  timestamp baseline stays at the last accepted sample's timestamp.
\<close>

theorem rejected_sample_no_change:
  assumes "lastTimestamp st = Some t0"
    and "(timeStamp ev - t0) / 1000 \<le> 0 \<or> (timeStamp ev - t0) / 1000 < 0.001"
  shows "handleDeviceMotion ev st = st \<and>
         velocity (handleDeviceMotion ev st) = velocity st \<and>
         position (handleDeviceMotion ev st) = position st \<and>
         path (handleDeviceMotion ev st) = path st \<and>
         lastTimestamp (handleDeviceMotion ev st) = Some t0"
  using assms by (simp add: handleDeviceMotion_def split: option.splits)

theorem rejected_sample_no_change_witness:
  "lastTimestamp (started 1000) = Some 1000 \<and>
   (timeStamp (sample 990 (Num 3) (Num 4)) - 1000) / 1000 \<le> (0 :: real) \<and>
   handleDeviceMotion (sample 990 (Num 3) (Num 4)) (started 1000) = started 1000 \<and>
   lastTimestamp (handleDeviceMotion (sample 990 (Num 3) (Num 4)) (started 1000)) = Some 1000"
proof -
  have b: "lastTimestamp (started 1000) = Some 1000"
    by (simp add: started_def)
  have d: "(timeStamp (sample 990 (Num 3) (Num 4)) - 1000) / 1000 \<le> (0 :: real)"
    by (simp add: sample_def)
  from rejected_sample_no_change [OF b disjI1 [OF d]] b d show ?thesis
    by simp
qed

subsection \<open>Stationary detection\<close>

lemma quiet_step_count:
  assumes "accepted e st" and "quiet e"
  shows "stationaryCount (handleDeviceMotion e st) = stationaryCount st + 1"
  using assms
  by (auto simp add: accepted_def quiet_def handleDeviceMotion_def Let_def
        stationaryUpdate_def integrate_def split: option.splits)

lemma quiet_run_count:
  "quiet_run es st \<Longrightarrow> stationaryCount (feed es st) = stationaryCount st + length es"
  by (induction es arbitrary: st) (simp_all add: quiet_step_count)

lemma quiet_run_snoc:
  "quiet_run (es @ [e]) st = (quiet_run es st \<and> accepted e (feed es st) \<and> quiet e)"
  by (induction es arbitrary: st) auto

text \<open>
  C4. In a run of consecutive accepted motion samples whose raw 2D acceleration
  magnitude is below 0.12, the sample \<open>e\<close> that follows at least five others (the 6th
  or a later one) sets the velocity to exactly \<open>{0, 0}\<close>, leaves position and path
  as they were, and moves each bias component toward the raw reading:
  \<open>bias' = 0.8 * bias + 0.2 * raw\<close>.
\<close>

theorem stationary_from_sixth_sample:
  assumes run: "quiet_run (es @ [e]) st" and len: "5 \<le> length es"
    and acc: "acceleration e = Some acc"
  shows "velocity (handleDeviceMotion e (feed es st)) = \<lparr>xc = 0, yc = 0\<rparr> \<and>
         position (handleDeviceMotion e (feed es st)) = position (feed es st) \<and>
         path (handleDeviceMotion e (feed es st)) = path (feed es st) \<and>
         accelBias (handleDeviceMotion e (feed es st)) =
           \<lparr>xc = 0.8 * xc (accelBias (feed es st)) + 0.2 * orZero (acc_x acc),
            yc = 0.8 * yc (accelBias (feed es st)) + 0.2 * orZero (acc_y acc)\<rparr>"
proof -
  let ?s = "feed es st"
  from run have r: "quiet_run es st" and a: "accepted e ?s" and q: "quiet e"
    by (simp_all add: quiet_run_snoc)
  from r len have cnt: "5 \<le> stationaryCount ?s"
    by (simp add: quiet_run_count)
  from a acc obtain t0 where t0: "lastTimestamp ?s = Some t0"
    and dt: "0.001 \<le> (timeStamp e - t0) / 1000"
    by (auto simp add: accepted_def split: option.splits)
  from q acc have mag: "hypot (orZero (acc_x acc)) (orZero (acc_y acc)) < 0.12"
    by (simp add: quiet_def stationaryThreshold_def)
  show ?thesis
    by (simp add: motion_stationary [OF acc t0 dt mag cnt] stationaryUpdate_def)
qed

theorem stationary_from_sixth_sample_witness:
  "quiet_run (quiet_samples @ [sample 96 (Num 0.1) (Num 0)]) moving \<and>
   5 \<le> length quiet_samples \<and>
   velocity (handleDeviceMotion (sample 96 (Num 0.1) (Num 0)) (feed quiet_samples moving))
     = \<lparr>xc = 0, yc = 0\<rparr> \<and>
   position (handleDeviceMotion (sample 96 (Num 0.1) (Num 0)) (feed quiet_samples moving))
     = position (feed quiet_samples moving) \<and>
   path (handleDeviceMotion (sample 96 (Num 0.1) (Num 0)) (feed quiet_samples moving))
     = path (feed quiet_samples moving) \<and>
   accelBias (handleDeviceMotion (sample 96 (Num 0.1) (Num 0)) (feed quiet_samples moving))
     = \<lparr>xc = 0.02, yc = 0\<rparr>"
proof -
  let ?e = "sample 96 (Num 0.1) (Num 0)"
  have run: "quiet_run (quiet_samples @ [?e]) moving"
    by (simp add: quiet_samples_def sample_def moving_def initial_state_def accepted_def
      quiet_def hypot_def stationaryThreshold_def handleDeviceMotion_def Let_def
      stationarySamplesRequired_def integrate_def stationaryUpdate_def)
  have len: "5 \<le> length quiet_samples"
    by (simp add: quiet_samples_def)
  have acc: "acceleration ?e = Some \<lparr>acc_x = Num 0.1, acc_y = Num 0\<rparr>"
    by (simp add: sample_def)
  have bias: "accelBias (feed quiet_samples moving) = \<lparr>xc = 0, yc = 0\<rparr>"
    by (simp add: quiet_samples_def sample_def moving_def initial_state_def hypot_def
      stationaryThreshold_def handleDeviceMotion_def Let_def stationarySamplesRequired_def
      integrate_def)
  note r = stationary_from_sixth_sample [OF run len acc]
  have b: "accelBias (handleDeviceMotion ?e (feed quiet_samples moving))
           = \<lparr>xc = 0.02, yc = 0\<rparr>"
    using r by (simp add: bias)
  from run len r b show ?thesis by blast
qed

subsection \<open>Deadzone and frame rotation\<close>

text \<open>
  C9. On an accepted sample that is not declared stationary, a bias-corrected
  component \<open>u\<close> enters the rotation as 0 when \<open>\<bar>u\<bar> \<le> 0.05\<close> and as \<open>u\<close> itself
  otherwise. The new velocity is built from these two values, so a component within
  the deadzone contributes nothing to the velocity of that step: the terms in \<open>ax\<close>
  (respectively \<open>ay\<close>) are absent.
\<close>

theorem deadzone_applied:
  assumes acc: "acceleration ev = Some acc" and t0: "lastTimestamp st = Some t0"
    and pos: "0.001 \<le> (timeStamp ev - t0) / 1000"
    and ns: "\<not> (hypot (orZero (acc_x acc)) (orZero (acc_y acc)) < 0.12
                \<and> 5 \<le> stationaryCount st)"
    and ux: "ux = orZero (acc_x acc) - xc (accelBias st)"
    and uy: "uy = orZero (acc_y acc) - yc (accelBias st)"
    and ax: "ax = (if \<bar>ux\<bar> \<le> 0.05 then 0 else ux)"
    and ay: "ay = (if \<bar>uy\<bar> \<le> 0.05 then 0 else uy)"
    and hr: "hr = heading st * (pi / 180)"
    and d: "dt = (timeStamp ev - t0) / 1000"
  shows "velocity (handleDeviceMotion ev st) =
           \<lparr>xc = (xc (velocity st) + (ax * cos hr + ay * sin hr) * dt) * exp (- dt),
            yc = (yc (velocity st) + (- ax * sin hr + ay * cos hr) * dt) * exp (- dt)\<rparr> \<and>
         (\<bar>ux\<bar> \<le> 0.05 \<longrightarrow> velocity (handleDeviceMotion ev st) =
           \<lparr>xc = (xc (velocity st) + ay * sin hr * dt) * exp (- dt),
            yc = (yc (velocity st) + ay * cos hr * dt) * exp (- dt)\<rparr>) \<and>
         (\<bar>uy\<bar> \<le> 0.05 \<longrightarrow> velocity (handleDeviceMotion ev st) =
           \<lparr>xc = (xc (velocity st) + ax * cos hr * dt) * exp (- dt),
            yc = (yc (velocity st) - ax * sin hr * dt) * exp (- dt)\<rparr>)"
proof -
  have dz: "deadzoned u = (if \<bar>u\<bar> \<le> 0.05 then 0 else u)" for u
    by (simp add: deadzoned_def deadzone_def)
  have h: "handleDeviceMotion ev st =
           integrate (orZero (acc_x acc)) (orZero (acc_y acc)) dt
             (st\<lparr>lastTimestamp := Some (timeStamp ev),
                 stationaryCount :=
                   (if hypot (orZero (acc_x acc)) (orZero (acc_y acc)) < 0.12
                    then stationaryCount st + 1 else 0)\<rparr>)"
    unfolding d by (rule motion_integrate [OF acc t0 pos ns])
  have v: "velocity (handleDeviceMotion ev st) =
           \<lparr>xc = (xc (velocity st) + (ax * cos hr + ay * sin hr) * dt) * exp (- dt),
            yc = (yc (velocity st) + (- ax * sin hr + ay * cos hr) * dt) * exp (- dt)\<rparr>"
    unfolding h integrate_velocity
    by (simp add: dz worldAx_def worldAy_def ux uy ax ay hr)
  have "\<bar>ux\<bar> \<le> 0.05 \<longrightarrow> velocity (handleDeviceMotion ev st) =
           \<lparr>xc = (xc (velocity st) + ay * sin hr * dt) * exp (- dt),
            yc = (yc (velocity st) + ay * cos hr * dt) * exp (- dt)\<rparr>"
    unfolding v by (simp add: ax)
  moreover have "\<bar>uy\<bar> \<le> 0.05 \<longrightarrow> velocity (handleDeviceMotion ev st) =
           \<lparr>xc = (xc (velocity st) + ax * cos hr * dt) * exp (- dt),
            yc = (yc (velocity st) - ax * sin hr * dt) * exp (- dt)\<rparr>"
    unfolding v by (simp add: ay)
  ultimately show ?thesis using v by blast
qed

theorem deadzone_applied_witness:
  "\<bar>0.13 - 0.1 :: real\<bar> \<le> 0.05 \<and> \<not> \<bar>1 - 0 :: real\<bar> \<le> 0.05 \<and>
   velocity (handleDeviceMotion (sample 1000 (Num 0.13) (Num 1))
              (moving\<lparr>accelBias := \<lparr>xc = 0.1, yc = 0\<rparr>\<rparr>))
     = \<lparr>xc = exp (- 1), yc = 3 * exp (- 1)\<rparr>"
proof -
  let ?st = "moving\<lparr>accelBias := \<lparr>xc = 0.1, yc = 0\<rparr>\<rparr>"
  let ?acc = "\<lparr>acc_x = Num 0.13, acc_y = Num 1\<rparr>"
  have acc: "acceleration (sample 1000 (Num 0.13) (Num 1)) = Some ?acc"
    by (simp add: sample_def)
  have t0: "lastTimestamp ?st = Some 0"
    by (simp add: moving_def)
  have pos: "0.001 \<le> (timeStamp (sample 1000 (Num 0.13) (Num 1)) - 0) / 1000"
    by (simp add: sample_def)
  have ns: "\<not> (hypot (orZero (acc_x ?acc)) (orZero (acc_y ?acc)) < 0.12
               \<and> 5 \<le> stationaryCount ?st)"
    by (simp add: moving_def initial_state_def)
  from deadzone_applied [OF acc t0 pos ns refl refl refl refl refl refl]
  show ?thesis
    by (simp add: moving_def initial_state_def sample_def)
qed

text \<open>
  C10. For every heading angle and every device-frame acceleration \<open>(ax, ay)\<close>, the
  rotation into the world frame keeps the squared Euclidean norm:
  \<open>worldAx\<^sup>2 + worldAy\<^sup>2 = ax\<^sup>2 + ay\<^sup>2\<close>.
\<close>

theorem rotation_preserves_norm:
  "(worldAx ax ay headingRad)\<^sup>2 + (worldAy ax ay headingRad)\<^sup>2 = ax\<^sup>2 + ay\<^sup>2"
proof -
  have *: "(ax * c + ay * s)\<^sup>2 + (- ax * s + ay * c)\<^sup>2 = (ax\<^sup>2 + ay\<^sup>2) * (s\<^sup>2 + c\<^sup>2)"
    for c s :: real
    by (simp add: power2_eq_square algebra_simps)
  show ?thesis
    unfolding worldAx_def worldAy_def * by simp
qed

subsection \<open>Damping\<close>

text \<open>
  C5, as stated: with zero world-frame acceleration the velocity magnitude strictly
  decreases on every integrated sample. It fails when the velocity is already zero:
  the sample at 1000 ms with zero acceleration, arriving in the initial state with
  baseline 0, is integrated and leaves the velocity at \<open>{0, 0}\<close>.
\<close>

theorem zero_velocity_not_decreased:
  "accepted (sample 1000 (Num 0) (Num 0)) (started 0) \<and>
   velocity (started 0) = \<lparr>xc = 0, yc = 0\<rparr> \<and>
   path (handleDeviceMotion (sample 1000 (Num 0) (Num 0)) (started 0))
     = [\<lparr>xc = 0, yc = 0\<rparr>, \<lparr>xc = 0, yc = 0\<rparr>] \<and>
   velocity (handleDeviceMotion (sample 1000 (Num 0) (Num 0)) (started 0))
     = \<lparr>xc = 0, yc = 0\<rparr> \<and>
   \<not> hypot (xc (velocity (handleDeviceMotion (sample 1000 (Num 0) (Num 0)) (started 0))))
           (yc (velocity (handleDeviceMotion (sample 1000 (Num 0) (Num 0)) (started 0))))
       < hypot (xc (velocity (started 0))) (yc (velocity (started 0)))"
  by (simp add: handleDeviceMotion_def sample_def started_def initial_state_def hypot_def
      accepted_def stationaryThreshold_def stationarySamplesRequired_def integrate_def Let_def
      deadzoned_def deadzone_def worldAx_def worldAy_def damping_def)

text \<open>
  C5, amended: on every accepted, integrated motion sample on which the
  post-deadzone world-frame acceleration is zero, the new velocity is
  \<open>v' = v * exp (- dt)\<close>; the velocity magnitude strictly decreases, \<open>|v'| < |v|\<close>,
  whenever \<open>v\<close> is not \<open>{0, 0}\<close>, and a zero velocity stays zero.
\<close>

theorem damping_decreases_speed:
  assumes acc: "acceleration ev = Some acc" and t0: "lastTimestamp st = Some t0"
    and dt: "0.001 \<le> (timeStamp ev - t0) / 1000"
    and ns: "\<not> (hypot (orZero (acc_x acc)) (orZero (acc_y acc)) < 0.12
                \<and> 5 \<le> stationaryCount st)"
    and wx: "worldAx (deadzoned (orZero (acc_x acc) - xc (accelBias st)))
                     (deadzoned (orZero (acc_y acc) - yc (accelBias st)))
                     (heading st * (pi / 180)) = 0"
    and wy: "worldAy (deadzoned (orZero (acc_x acc) - xc (accelBias st)))
                     (deadzoned (orZero (acc_y acc) - yc (accelBias st)))
                     (heading st * (pi / 180)) = 0"
  shows "velocity (handleDeviceMotion ev st) =
           \<lparr>xc = xc (velocity st) * exp (- ((timeStamp ev - t0) / 1000)),
            yc = yc (velocity st) * exp (- ((timeStamp ev - t0) / 1000))\<rparr> \<and>
         (velocity st \<noteq> \<lparr>xc = 0, yc = 0\<rparr> \<longrightarrow>
            hypot (xc (velocity (handleDeviceMotion ev st)))
                  (yc (velocity (handleDeviceMotion ev st)))
              < hypot (xc (velocity st)) (yc (velocity st))) \<and>
         (velocity st = \<lparr>xc = 0, yc = 0\<rparr> \<longrightarrow>
            velocity (handleDeviceMotion ev st) = \<lparr>xc = 0, yc = 0\<rparr>)"
proof -
  let ?dt = "(timeStamp ev - t0) / 1000"
  have v: "velocity (handleDeviceMotion ev st) =
           \<lparr>xc = xc (velocity st) * exp (- ?dt), yc = yc (velocity st) * exp (- ?dt)\<rparr>"
    unfolding motion_integrate [OF acc t0 dt ns] integrate_velocity
    using wx wy by simp
  have "(0::real) < 0.001" by simp
  with dt have "0 < ?dt" by linarith
  then have e: "exp (- ?dt) < 1" by simp
  have sc: "hypot (xc (velocity st) * exp (- ?dt)) (yc (velocity st) * exp (- ?dt))
        = hypot (xc (velocity st)) (yc (velocity st)) * exp (- ?dt)"
    by (rule hypot_scale) simp
  have dec: "hypot (xc (velocity (handleDeviceMotion ev st)))
                  (yc (velocity (handleDeviceMotion ev st)))
              < hypot (xc (velocity st)) (yc (velocity st))"
    if nz: "velocity st \<noteq> \<lparr>xc = 0, yc = 0\<rparr>"
  proof -
    have "hypot (xc (velocity st)) (yc (velocity st)) * exp (- ?dt)
          < hypot (xc (velocity st)) (yc (velocity st)) * 1"
      using hypot_pos [OF nz] e by (rule_tac mult_strict_left_mono)
    with sc v show ?thesis by simp
  qed
  have zero: "velocity (handleDeviceMotion ev st) = \<lparr>xc = 0, yc = 0\<rparr>"
    if "velocity st = \<lparr>xc = 0, yc = 0\<rparr>"
    unfolding v using that by simp
  from v dec zero show ?thesis by blast
qed

theorem damping_decreases_speed_witness:
  "velocity (moving\<lparr>accelBias := \<lparr>xc = 0, yc = 1\<rparr>\<rparr>) \<noteq> \<lparr>xc = 0, yc = 0\<rparr> \<and>
   velocity (handleDeviceMotion (sample 1000 (Num 0.04) (Num 1))
              (moving\<lparr>accelBias := \<lparr>xc = 0, yc = 1\<rparr>\<rparr>))
     = \<lparr>xc = 1 * exp (- 1), yc = 2 * exp (- 1)\<rparr> \<and>
   hypot (xc (velocity (handleDeviceMotion (sample 1000 (Num 0.04) (Num 1))
                (moving\<lparr>accelBias := \<lparr>xc = 0, yc = 1\<rparr>\<rparr>))))
         (yc (velocity (handleDeviceMotion (sample 1000 (Num 0.04) (Num 1))
                (moving\<lparr>accelBias := \<lparr>xc = 0, yc = 1\<rparr>\<rparr>))))
     < hypot (xc (velocity (moving\<lparr>accelBias := \<lparr>xc = 0, yc = 1\<rparr>\<rparr>)))
             (yc (velocity (moving\<lparr>accelBias := \<lparr>xc = 0, yc = 1\<rparr>\<rparr>))) \<and>
   velocity (started 0) = \<lparr>xc = 0, yc = 0\<rparr> \<and>
   velocity (handleDeviceMotion (sample 1000 (Num 0.04) (Num 0)) (started 0))
     = \<lparr>xc = 0, yc = 0\<rparr>"
proof -
  let ?st = "moving\<lparr>accelBias := \<lparr>xc = 0, yc = 1\<rparr>\<rparr>"
  let ?acc = "\<lparr>acc_x = Num 0.04, acc_y = Num 1\<rparr>"
  have acc: "acceleration (sample 1000 (Num 0.04) (Num 1)) = Some ?acc"
    by (simp add: sample_def)
  have t0: "lastTimestamp ?st = Some 0"
    by (simp add: moving_def)
  have pos: "0.001 \<le> (timeStamp (sample 1000 (Num 0.04) (Num 1)) - 0) / 1000"
    by (simp add: sample_def)
  have ns: "\<not> (hypot (orZero (acc_x ?acc)) (orZero (acc_y ?acc)) < 0.12
               \<and> 5 \<le> stationaryCount ?st)"
    by (simp add: moving_def initial_state_def)
  have wx: "worldAx (deadzoned (orZero (acc_x ?acc) - xc (accelBias ?st)))
                     (deadzoned (orZero (acc_y ?acc) - yc (accelBias ?st)))
                     (heading ?st * (pi / 180)) = 0"
    by (simp add: worldAx_def deadzoned_def deadzone_def moving_def initial_state_def)
  have wy: "worldAy (deadzoned (orZero (acc_x ?acc) - xc (accelBias ?st)))
                     (deadzoned (orZero (acc_y ?acc) - yc (accelBias ?st)))
                     (heading ?st * (pi / 180)) = 0"
    by (simp add: worldAy_def deadzoned_def deadzone_def moving_def initial_state_def)
  have nz: "velocity ?st \<noteq> \<lparr>xc = 0, yc = 0\<rparr>"
    by (simp add: moving_def)
  note r = damping_decreases_speed [OF acc t0 pos ns wx wy]
  have v: "velocity (handleDeviceMotion (sample 1000 (Num 0.04) (Num 1)) ?st)
           = \<lparr>xc = 1 * exp (- 1), yc = 2 * exp (- 1)\<rparr>"
    using r by (simp add: moving_def sample_def)
  let ?acc0 = "\<lparr>acc_x = Num 0.04, acc_y = Num 0\<rparr>"
  have acc0: "acceleration (sample 1000 (Num 0.04) (Num 0)) = Some ?acc0"
    by (simp add: sample_def)
  have t00: "lastTimestamp (started 0) = Some 0"
    by (simp add: started_def)
  have pos0: "0.001 \<le> (timeStamp (sample 1000 (Num 0.04) (Num 0)) - 0) / 1000"
    by (simp add: sample_def)
  have ns0: "\<not> (hypot (orZero (acc_x ?acc0)) (orZero (acc_y ?acc0)) < 0.12
               \<and> 5 \<le> stationaryCount (started 0))"
    by (simp add: started_def initial_state_def)
  have wx0: "worldAx (deadzoned (orZero (acc_x ?acc0) - xc (accelBias (started 0))))
                     (deadzoned (orZero (acc_y ?acc0) - yc (accelBias (started 0))))
                     (heading (started 0) * (pi / 180)) = 0"
    by (simp add: worldAx_def deadzoned_def deadzone_def started_def initial_state_def)
  have wy0: "worldAy (deadzoned (orZero (acc_x ?acc0) - xc (accelBias (started 0))))
                     (deadzoned (orZero (acc_y ?acc0) - yc (accelBias (started 0))))
                     (heading (started 0) * (pi / 180)) = 0"
    by (simp add: worldAy_def deadzoned_def deadzone_def started_def initial_state_def)
  have z: "velocity (started 0) = \<lparr>xc = 0, yc = 0\<rparr>"
    by (simp add: started_def initial_state_def)
  note r0 = damping_decreases_speed [OF acc0 t00 pos0 ns0 wx0 wy0]
  from nz v r z r0 show ?thesis by blast
qed

section \<open>Reset\<close>

text \<open>
  C6. Whatever the state, \<open>clearPath\<close> sets velocity and position to \<open>{0, 0}\<close>, the
  path to the single origin point and the timestamp baseline to \<^verbatim>\<open>null\<close>; the
  acceleration bias and the stationary-sample count are what they were.
\<close>

theorem clearPath_resets:
  "velocity (clearPath st) = \<lparr>xc = 0, yc = 0\<rparr> \<and>
   position (clearPath st) = \<lparr>xc = 0, yc = 0\<rparr> \<and>
   path (clearPath st) = [\<lparr>xc = 0, yc = 0\<rparr>] \<and>
   lastTimestamp (clearPath st) = None \<and>
   accelBias (clearPath st) = accelBias st \<and>
   stationaryCount (clearPath st) = stationaryCount st"
  by (simp add: clearPath_def)

section \<open>Georeferencing\<close>

text \<open>
  C7. \<open>projectPath\<close> returns the empty trace when the GPS fix is null or the path
  has fewer than 2 points. Otherwise, where the cosine of the anchor latitude is not
  zero (at a pole the divisor is zero and the quotient is not a real number), every
  path point \<open>{x, y}\<close> maps to latitude \<open>anchorLat + y / 111320\<close> and longitude
  \<open>anchorLon + x / (111320 * cos (anchorLat in radians))\<close>. With the anchor at
  \<open>(0, 0)\<close>, a path point \<open>(x = 0, y = 111320)\<close> projects to within \<open>1e-4\<close> degrees of
  \<open>(1, 0)\<close>.
\<close>

theorem projectPath_spec:
  "(gpsLocation = None \<or> length pth < 2 \<longrightarrow> projectPath gpsLocation pth = []) \<and>
   (gpsLocation = Some g \<and> 2 \<le> length pth \<and> cos (latitude g * pi / 180) \<noteq> 0 \<longrightarrow>
      length (projectPath gpsLocation pth) = length pth \<and>
      (\<forall>i < length pth. projectPath gpsLocation pth ! i =
         (latitude g + yc (pth ! i) / 111320,
          longitude g + xc (pth ! i) / (111320 * cos (latitude g * pi / 180))))) \<and>
   (gpsLocation = Some g \<and> latitude g = 0 \<and> longitude g = 0 \<and> 2 \<le> length pth \<longrightarrow>
      (\<forall>i < length pth. pth ! i = \<lparr>xc = 0, yc = 111320\<rparr> \<longrightarrow>
         \<bar>fst (projectPath gpsLocation pth ! i) - 1\<bar> \<le> 1 / 10 ^ 4 \<and>
         \<bar>snd (projectPath gpsLocation pth ! i) - 0\<bar> \<le> 1 / 10 ^ 4))"
  by (auto simp add: projectPath_def Let_def split: option.splits)

theorem projectPath_spec_witness:
  "projectPath None [\<lparr>xc = 0, yc = 0\<rparr>, \<lparr>xc = 0, yc = 111320\<rparr>] = [] \<and>
   projectPath (Some equator) [\<lparr>xc = 0, yc = 0\<rparr>] = [] \<and>
   cos (latitude equator * pi / 180) \<noteq> 0 \<and>
   projectPath (Some equator) [\<lparr>xc = 0, yc = 0\<rparr>, \<lparr>xc = 0, yc = 111320\<rparr>] ! 1 = (1, 0) \<and>
   \<bar>fst (projectPath (Some equator) [\<lparr>xc = 0, yc = 0\<rparr>, \<lparr>xc = 0, yc = 111320\<rparr>] ! 1) - 1\<bar>
     \<le> 1 / 10 ^ 4"
proof -
  let ?pth = "[\<lparr>xc = 0, yc = 0\<rparr>, \<lparr>xc = 0, yc = 111320\<rparr>]"
  have e: "latitude equator = 0" "longitude equator = 0"
    by (simp_all add: equator_def)
  have 1: "projectPath None ?pth = []"
    using projectPath_spec [of None ?pth equator] by simp
  have 2: "projectPath (Some equator) [\<lparr>xc = 0, yc = 0\<rparr>] = []"
    using projectPath_spec [of "Some equator" "[\<lparr>xc = 0, yc = 0\<rparr>]" equator] by simp
  have 3: "projectPath (Some equator) ?pth ! 1 = (1, 0)"
    using projectPath_spec [of "Some equator" ?pth equator] e by simp
  have 4: "\<bar>fst (projectPath (Some equator) ?pth ! 1) - 1\<bar> \<le> 1 / 10 ^ 4"
    using projectPath_spec [of "Some equator" ?pth equator] e by simp
  from 1 2 3 4 e show ?thesis by simp
qed

text \<open>
  C8. Let \<open>d p n\<close> be the flat-Earth distance in metres between a stored point \<open>p\<close> and
  a new point \<open>n\<close>, both \<open>(latitude, longitude)\<close> in degrees:
  \<open>sqrt (((lat p - lat n) * 111320)\<^sup>2 + ((lon p - lon n) * 111320 * cos (lat p in radians))\<^sup>2)\<close>,
  the cosine of the longitude scale being taken at the stored point's latitude.
  \<open>ingestGroundTruth\<close> appends the coordinates of an incoming fix exactly when \<open>d\<close>
  from every stored point to it is at least 0.5. A fix closer than 0.5 m to some
  stored point leaves the trace unchanged. Starting from the empty trace, two
  fixes 1 m apart are both stored, and of two fixes less than 0.5 m apart only the
  first is.
\<close>

theorem ingestGroundTruth_spec:
  assumes d: "d = (\<lambda>p n. sqrt (((fst p - fst n) * 111320)\<^sup>2
                              + ((snd p - snd n) * 111320 * cos (fst p * pi / 180))\<^sup>2))"
  shows
  "ingestGroundTruth (Some g) prev =
     (if \<forall>p \<in> set prev. 0.5 \<le> d p (latitude g, longitude g)
      then prev @ [(latitude g, longitude g)] else prev) \<and>
   ((\<exists>p \<in> set prev. d p (latitude g, longitude g) < 0.5) \<longrightarrow>
      ingestGroundTruth (Some g) prev = prev) \<and>
   (d (latitude g1, longitude g1) (latitude g, longitude g) = 1 \<longrightarrow>
      ingestGroundTruth (Some g) (ingestGroundTruth (Some g1) []) =
        [(latitude g1, longitude g1), (latitude g, longitude g)]) \<and>
   (d (latitude g1, longitude g1) (latitude g, longitude g) < 0.5 \<longrightarrow>
      ingestGroundTruth (Some g) (ingestGroundTruth (Some g1) []) =
        [(latitude g1, longitude g1)])"
proof -
  have dd: "d = distance"
    by (simp add: d distance_def fun_eq_iff)
  have dup: "list_ex (\<lambda>point. distance point n < 0.5) ps
             = (\<not> (\<forall>p \<in> set ps. 0.5 \<le> distance p n))" for n ps
    unfolding list_ex_iff using linorder_not_less [where 'a = real] by blast
  have main: "ingestGroundTruth (Some h) ps =
     (if \<forall>p \<in> set ps. 0.5 \<le> distance p (latitude h, longitude h)
      then ps @ [(latitude h, longitude h)] else ps)" for h ps
    unfolding ingestGroundTruth_def Let_def dup by simp
  have one: "ingestGroundTruth (Some g1) [] = [(latitude g1, longitude g1)]"
    by (simp add: main)
  have "(\<exists>p \<in> set prev. distance p (latitude g, longitude g) < 0.5) \<longrightarrow>
      ingestGroundTruth (Some g) prev = prev"
    unfolding main using linorder_not_less [where 'a = real] by auto
  moreover have "distance (latitude g1, longitude g1) (latitude g, longitude g) = 1 \<longrightarrow>
      ingestGroundTruth (Some g) (ingestGroundTruth (Some g1) []) =
        [(latitude g1, longitude g1), (latitude g, longitude g)]"
    unfolding one main by simp
  moreover have "distance (latitude g1, longitude g1) (latitude g, longitude g) < 0.5 \<longrightarrow>
      ingestGroundTruth (Some g) (ingestGroundTruth (Some g1) []) =
        [(latitude g1, longitude g1)]"
    unfolding one main by simp
  ultimately show ?thesis unfolding dd using main [of g prev] by blast
qed

text \<open>
  At latitude 60 the cosine is one half. Two fixes whose longitudes differ by
  \<open>2 / 111320\<close> degrees are 1 m apart and both are stored; two whose longitudes
  differ by \<open>1 / 139150\<close> degrees are 0.4 m apart, where the same difference on the
  equator would be 0.8 m, and only the first is stored.
\<close>

theorem ingestGroundTruth_spec_witness:
  "sqrt (((60 - 60) * 111320)\<^sup>2 + ((0 - 2 / 111320) * 111320 * cos (60 * pi / 180))\<^sup>2)
     = (1 :: real) \<and>
   ingestGroundTruth (Some (fix_at 60 (2 / 111320))) (ingestGroundTruth (Some (fix_at 60 0)) [])
     = [(60, 0), (60, 2 / 111320)] \<and>
   sqrt (((60 - 60) * 111320)\<^sup>2 + ((0 - 1 / 139150) * 111320 * cos (60 * pi / 180))\<^sup>2)
     = (2 / 5 :: real) \<and>
   sqrt (((60 - 60) * 111320)\<^sup>2 + ((0 - 1 / 139150) * 111320)\<^sup>2) = (4 / 5 :: real) \<and>
   ingestGroundTruth (Some (fix_at 60 (1 / 139150))) (ingestGroundTruth (Some (fix_at 60 0)) [])
     = [(60, 0)] \<and>
   ingestGroundTruth (Some (fix_at 60 (1 / 139150))) [(60, 0)] = [(60, 0)] \<and>
   ingestGroundTruth (Some (fix_at 60 (2 / 111320))) [(60, 0)] = [(60, 0), (60, 2 / 111320)]"
proof -
  have far: "sqrt (((60 - 60) * 111320)\<^sup>2
                   + ((0 - 2 / 111320) * 111320 * cos (60 * pi / 180))\<^sup>2) = (1 :: real)"
    by (simp add: cos_60)
  have near: "sqrt (((60 - 60) * 111320)\<^sup>2
                    + ((0 - 1 / 139150) * 111320 * cos (60 * pi / 180))\<^sup>2) = (2 / 5 :: real)"
    by (simp add: cos_60 real_sqrt_divide power2_eq_square)
  have flat: "sqrt (((60 - 60) * 111320)\<^sup>2 + ((0 - 1 / 139150) * 111320)\<^sup>2) = (4 / 5 :: real)"
    by (simp add: real_sqrt_divide power2_eq_square)
  note s = ingestGroundTruth_spec [OF refl]
  have 1: "ingestGroundTruth (Some (fix_at 60 (2 / 111320)))
             (ingestGroundTruth (Some (fix_at 60 0)) []) = [(60, 0), (60, 2 / 111320)]"
    using s [of "fix_at 60 (2 / 111320)" "[]" "fix_at 60 0"] far
    by (simp add: fix_at_def)
  have 2: "ingestGroundTruth (Some (fix_at 60 (1 / 139150)))
             (ingestGroundTruth (Some (fix_at 60 0)) []) = [(60, 0)]"
    using s [of "fix_at 60 (1 / 139150)" "[]" "fix_at 60 0"] near
    by (simp add: fix_at_def)
  have 3: "ingestGroundTruth (Some (fix_at 60 (1 / 139150))) [(60, 0)] = [(60, 0)]"
    using s [of "fix_at 60 (1 / 139150)" "[(60, 0)]" "fix_at 60 0"] near
    by (simp add: fix_at_def)
  have 4: "ingestGroundTruth (Some (fix_at 60 (2 / 111320))) [(60, 0)]
           = [(60, 0), (60, 2 / 111320)]"
    using s [of "fix_at 60 (2 / 111320)" "[(60, 0)]" "fix_at 60 0"] far
    by (simp add: fix_at_def)
  from far near flat 1 2 3 4 show ?thesis by blast
qed

end
